theory Spec2Isabelle
  imports Complex_Main
begin

section \<open>Python values, numbers and errors\<close>

text \<open>
  The module \<^verbatim>\<open>easy_thumbnails/VIL/Image.py\<close> is a facade in the style of PIL's Image over
  reportlab's SVG canvas. The embedding below follows the source function by function.

  Every exception the source can raise is a value of \<open>error\<close>; a function that can
  raise returns \<open>error + 'a\<close> with \<open>Inl\<close> for the exception. All constructors stand
  for subclasses of Python's \<^verbatim>\<open>Exception\<close>. \<open>InvalidRef\<close> has no Python counterpart:
  it is returned when a document reference does not point into the store, which
  cannot happen to a live Python object.
\<close>

datatype error =
    AssertionError | ValueError | TypeError | IndexError | ZeroDivisionError
  | OverflowError | RuntimeError | AttributeError | OSError | InvalidRef

text \<open>
  Numbers are Python's \<^verbatim>\<open>int\<close> (unbounded) and \<^verbatim>\<open>float\<close>. A float is given by what it
  denotes: a rational number, the negative zero, an infinity or NaN. Which rationals
  are floats, and how an operation rounds, is not fixed here: the arithmetic on
  floats is a parameter of the model (see \<open>env\<close> below), so that nothing is assumed
  about rounding, underflow or overflow. Python's \<^verbatim>\<open>bool\<close> is a subclass of \<^verbatim>\<open>int\<close>;
  \<^verbatim>\<open>True\<close> and \<^verbatim>\<open>False\<close> are the integers 1 and 0.
\<close>

datatype pyfloat = Finite rat | NegZero | PosInf | NegInf | NaN

datatype pynum = PInt int | PFloat pyfloat

datatype pyval =
    PNone
  | PNum pynum
  | PStr string
  | PBytes string
  | PTuple "pyval list"
  | PList "pyval list"

text \<open>
  Comparison of floats is exact. The place of a float in the order: \<open>None\<close> for NaN,
  which compares false with everything.
\<close>

fun float_key :: "pyfloat \<Rightarrow> (int \<times> rat) option" where
  "float_key (Finite q) = Some (0, q)"
| "float_key NegZero = Some (0, 0)"
| "float_key PosInf = Some (1, 0)"
| "float_key NegInf = Some (- 1, 0)"
| "float_key NaN = None"

text \<open>\<^verbatim>\<open>a > b\<close> on floats, line 71.\<close>

definition fgt :: "pyfloat \<Rightarrow> pyfloat \<Rightarrow> bool" where
  "fgt a b =
     (case (float_key a, float_key b) of
        (Some (i, x), Some (j, y)) \<Rightarrow> j < i \<or> (i = j \<and> y < x)
      | _ \<Rightarrow> False)"

text \<open>\<^verbatim>\<open>x == 0.0\<close>: the test of a float divisor, true of both zeros.\<close>

definition is_zero :: "pyfloat \<Rightarrow> bool" where
  "is_zero x = (float_key x = Some (0, 0))"

text \<open>Truth value of an object, as tested by \<^verbatim>\<open>if box:\<close> and \<^verbatim>\<open>if color:\<close>.\<close>

fun truthy :: "pyval \<Rightarrow> bool" where
  "truthy PNone = False"
| "truthy (PNum (PInt i)) = (i \<noteq> 0)"
| "truthy (PNum (PFloat x)) = (\<not> is_zero x)"
| "truthy (PStr s) = (s \<noteq> [])"
| "truthy (PBytes s) = (s \<noteq> [])"
| "truthy (PTuple xs) = (xs \<noteq> [])"
| "truthy (PList xs) = (xs \<noteq> [])"

text \<open>\<^verbatim>\<open>isinstance(v, (list, tuple))\<close>, giving the items.\<close>

fun seq_items :: "pyval \<Rightarrow> pyval list option" where
  "seq_items (PTuple xs) = Some xs"
| "seq_items (PList xs) = Some xs"
| "seq_items _ = None"

text \<open>\<^verbatim>\<open>isinstance(v, (int, float))\<close>.\<close>

fun is_number :: "pyval \<Rightarrow> bool" where
  "is_number (PNum _) = True"
| "is_number _ = False"

text \<open>
  Subscription \<^verbatim>\<open>v[i]\<close> with a non-negative constant index: an item of a tuple or
  list, a one-character string, an int for bytes; \<^verbatim>\<open>IndexError\<close> out of range and
  \<^verbatim>\<open>TypeError\<close> where the value is not subscriptable.
\<close>

fun py_getitem :: "pyval \<Rightarrow> nat \<Rightarrow> error + pyval" where
  "py_getitem (PTuple xs) i = (if i < length xs then Inr (xs ! i) else Inl IndexError)"
| "py_getitem (PList xs) i = (if i < length xs then Inr (xs ! i) else Inl IndexError)"
| "py_getitem (PStr s) i = (if i < length s then Inr (PStr [s ! i]) else Inl IndexError)"
| "py_getitem (PBytes s) i =
     (if i < length s then Inr (PNum (PInt (of_char (s ! i)))) else Inl IndexError)"
| "py_getitem _ i = Inl TypeError"

text \<open>\<^verbatim>\<open>str(n)\<close> of a non-negative int, and of any int.\<close>

definition digit :: "nat \<Rightarrow> char" where
  "digit d = ''0123456789'' ! d"

fun digits_of :: "nat \<Rightarrow> string" where
  "digits_of n = (if n < 10 then [digit n] else digits_of (n div 10) @ [digit (n mod 10)])"

declare digits_of.simps [simp del]

definition str_int :: "int \<Rightarrow> string" where
  "str_int i = (if i < 0 then CHR ''-'' # digits_of (nat (- i)) else digits_of (nat i))"

section \<open>The SVG document and the store\<close>

text \<open>
  The canvas' \<^verbatim>\<open>svg\<close> attribute is a DOM element of the XML library. An element is a
  tree value; the objects themselves live in a store and a handle holds the address
  of its element, so that two handles pointing to one element are told apart from
  two handles with equal elements.
\<close>

datatype xml = Element string "(string \<times> string) list" "xml list"

fun attributes :: "xml \<Rightarrow> (string \<times> string) list" where
  "attributes (Element t as cs) = as"

text \<open>\<^verbatim>\<open>getAttribute\<close> gives the empty string for an attribute that is not set.\<close>

definition getAttribute :: "xml \<Rightarrow> string \<Rightarrow> string" where
  "getAttribute x k = (case map_of (attributes x) k of None \<Rightarrow> [] | Some v \<Rightarrow> v)"

fun put_attr :: "string \<Rightarrow> string \<Rightarrow> (string \<times> string) list \<Rightarrow> (string \<times> string) list" where
  "put_attr k v [] = [(k, v)]"
| "put_attr k v ((k', v') # as) = (if k' = k then (k, v) # as else (k', v') # put_attr k v as)"

fun setAttribute :: "xml \<Rightarrow> string \<Rightarrow> string \<Rightarrow> xml" where
  "setAttribute (Element t as cs) k v = Element t (put_attr k v as) cs"

type_synonym addr = nat
type_synonym store = "xml list"

definition lookup :: "store \<Rightarrow> addr \<Rightarrow> xml option" where
  "lookup heap a = (if a < length heap then Some (heap ! a) else None)"

text \<open>A new object gets the next free address.\<close>

definition alloc :: "store \<Rightarrow> xml \<Rightarrow> store \<times> addr" where
  "alloc heap x = (heap @ [x], length heap)"

text \<open>\<^verbatim>\<open>node.cloneNode(True)\<close>: a new object holding a copy of the whole tree.\<close>

definition cloneNode :: "store \<Rightarrow> addr \<Rightarrow> error + store \<times> addr" where
  "cloneNode heap a =
     (case lookup heap a of None \<Rightarrow> Inl InvalidRef | Some x \<Rightarrow> Inr (alloc heap x))"

text \<open>\<^verbatim>\<open>node.setAttribute(k, v)\<close> on the object at an address.\<close>

definition set_attribute :: "store \<Rightarrow> addr \<Rightarrow> string \<Rightarrow> string \<Rightarrow> store" where
  "set_attribute heap a k v =
     (if a < length heap then heap[a := setAttribute (heap ! a) k v] else heap)"

section \<open>What the module takes from outside\<close>

text \<open>
  The parsed drawing of svglib: its declared width and height (numbers) and its
  contents, which the module never looks at.
\<close>

record drawing =
  drawing_width :: pynum
  drawing_height :: pynum
  contents :: string

text \<open>
  An attribute that \<^verbatim>\<open>__init__\<close> does not create: \<^verbatim>\<open>hasattr\<close> is false for \<open>Missing\<close>.
\<close>

datatype 'a attr = Missing | Has 'a

text \<open>
  What \<^verbatim>\<open>save\<close> is given as \<^verbatim>\<open>fp\<close>: a \<^verbatim>\<open>str\<close>, a \<^verbatim>\<open>bytes\<close>, a \<^verbatim>\<open>pathlib.Path\<close> (by its
  \<^verbatim>\<open>str\<close>, which is never empty), or a file object with its \<^verbatim>\<open>name\<close> attribute.
\<close>

datatype target = TStr string | TBytes string | TPath string | TFile "pyval attr"

text \<open>Where the document was written: a file opened by \<^verbatim>\<open>save\<close>, or the object given.\<close>

datatype sink = Opened string | Given target

text \<open>
  Built-ins and libraries the module calls but does not define are parameters of
  the model, collected in one record:
  \<^item> \<open>py_float\<close>: \<^verbatim>\<open>float(token)\<close>, \<open>None\<close> for \<^verbatim>\<open>ValueError\<close>;
  \<^item> \<open>float_repr\<close>: the text \<^verbatim>\<open>str.format\<close> writes for a float;
  \<^item> \<open>fsub\<close>, \<open>fadd\<close>, \<open>fmul\<close>: \<^verbatim>\<open>a - b\<close>, \<^verbatim>\<open>a + b\<close> and \<^verbatim>\<open>a * b\<close> on floats, which never raise;
  \<^item> \<open>fdiv\<close>: \<^verbatim>\<open>a / b\<close> on floats for a divisor that is not zero;
  \<^item> \<open>float_of_int\<close>: the float an int is converted to in mixed arithmetic, \<open>None\<close>
    for \<^verbatim>\<open>OverflowError\<close>;
  \<^item> \<open>int_truediv\<close>: \<^verbatim>\<open>a / b\<close> on ints for a divisor that is not zero, \<open>None\<close> for
    \<^verbatim>\<open>OverflowError\<close>;
  \<^item> \<open>str_split\<close>: \<^verbatim>\<open>s.split()\<close>, the runs of non-whitespace characters;
  \<^item> \<open>blank_svg\<close>: the \<^verbatim>\<open>svg\<close> element of a new \<^verbatim>\<open>SVGCanvas(size=size, useClip=True)\<close>;
  \<^item> \<open>svg2rlg\<close>: svglib's parser on a file name, \<open>None\<close> when it yields nothing;
  \<^item> \<open>render_draw\<close>: what \<^verbatim>\<open>renderSVG.draw(drawing, canvas)\<close> makes of the canvas' element;
  \<^item> \<open>path_resolve\<close>: \<^verbatim>\<open>str(Path(p).resolve())\<close>;
  \<^item> \<open>path_suffix\<close>: \<^verbatim>\<open>Path(filename).suffix\<close> of a \<^verbatim>\<open>str\<close>;
  \<^item> \<open>open_error\<close>: the error, if any, of \<^verbatim>\<open>builtins.open(filename, "w+b")\<close>;
  \<^item> \<open>writexml_error\<close>: the error, if any, of \<^verbatim>\<open>svg.writexml(fp)\<close> on a sink.
\<close>

record env =
  py_float :: "string \<Rightarrow> pyfloat option"
  float_repr :: "pyfloat \<Rightarrow> string"
  fsub :: "pyfloat \<Rightarrow> pyfloat \<Rightarrow> pyfloat"
  fadd :: "pyfloat \<Rightarrow> pyfloat \<Rightarrow> pyfloat"
  fmul :: "pyfloat \<Rightarrow> pyfloat \<Rightarrow> pyfloat"
  fdiv :: "pyfloat \<Rightarrow> pyfloat \<Rightarrow> pyfloat"
  float_of_int :: "int \<Rightarrow> pyfloat option"
  int_truediv :: "int \<Rightarrow> int \<Rightarrow> pyfloat option"
  str_split :: "string \<Rightarrow> string list"
  blank_svg :: "pyval list \<Rightarrow> xml"
  svg2rlg :: "string \<Rightarrow> drawing option"
  render_draw :: "drawing \<Rightarrow> xml \<Rightarrow> xml"
  path_resolve :: "string \<Rightarrow> string"
  path_suffix :: "string \<Rightarrow> string"
  open_error :: "string \<Rightarrow> error option"
  writexml_error :: "xml \<Rightarrow> sink \<Rightarrow> error option"

section \<open>The Image handle\<close>

text \<open>reportlab's \<^verbatim>\<open>Color(red=0, green=0, blue=0, alpha=1)\<close>.\<close>

record color =
  red :: pyval
  green :: pyval
  blue :: pyval
  alpha :: pyval

text \<open>
  The canvas: the address of its \<^verbatim>\<open>svg\<close> element and the fill colour set through
  \<^verbatim>\<open>setFillColor\<close> (\<open>None\<close>: the canvas' own default).
\<close>

record canvas =
  svg :: addr
  fill_color :: "color option"

text \<open>A file object, as far as \<^verbatim>\<open>close\<close> is concerned: the error its \<^verbatim>\<open>close()\<close> raises.\<close>

record file_obj =
  close_raises :: "error option"

text \<open>
  The handle. \<open>fp\<close> is \<open>Has None\<close> when the attribute holds \<^verbatim>\<open>None\<close>; \<open>close__fp\<close> is
  the callable \<^verbatim>\<open>_close__fp\<close>, given by the error it raises.
\<close>

record image =
  canvas :: canvas
  im_size :: "pyval list"
  mode :: pyval
  fp :: "file_obj option attr"
  close__fp :: "error option attr"
  map_attr :: "pyval attr"
  im_attr :: "pyval attr"

text \<open>\<^verbatim>\<open>Image.__init__(self, size=(300, 300))\<close>, lines 15-21.\<close>

definition image_init :: "env \<Rightarrow> store \<Rightarrow> pyval \<Rightarrow> error + store \<times> image" where
  "image_init E heap size_arg =
     (case seq_items size_arg of
        None \<Rightarrow> Inl AssertionError
      | Some xs \<Rightarrow>
          if length xs = 2 \<and> is_number (xs ! 0) \<and> is_number (xs ! 1) then
            (let (heap', a) = alloc heap (blank_svg E xs)
             in Inr (heap',
                  \<lparr>canvas = \<lparr>svg = a, fill_color = None\<rparr>, im_size = xs, mode = PNone,
                   fp = Missing, close__fp = Missing, map_attr = Missing, im_attr = Missing\<rparr>))
          else Inl AssertionError)"

text \<open>The properties \<^verbatim>\<open>width\<close> and \<^verbatim>\<open>height\<close>, lines 23-29.\<close>

definition width :: "image \<Rightarrow> error + pyval" where
  "width h = py_getitem (PTuple (im_size h)) 0"

definition height :: "image \<Rightarrow> error + pyval" where
  "height h = py_getitem (PTuple (im_size h)) 1"

section \<open>Sequencing of operations that can raise\<close>

definition andthen :: "error + 'a \<Rightarrow> ('a \<Rightarrow> error + 'b) \<Rightarrow> error + 'b" where
  "andthen m f = (case m of Inl e \<Rightarrow> Inl e | Inr x \<Rightarrow> f x)"

section \<open>getbbox, resize and crop\<close>

text \<open>\<^verbatim>\<open>float(b) for b in tokens\<close>: the first token that is no float raises.\<close>

fun floats_of :: "(string \<Rightarrow> pyfloat option) \<Rightarrow> string list \<Rightarrow> error + pyfloat list" where
  "floats_of f [] = Inr []"
| "floats_of f (t # ts) =
     (case f t of
        None \<Rightarrow> Inl ValueError
      | Some x \<Rightarrow> andthen (floats_of f ts) (\<lambda>xs. Inr (x # xs)))"

text \<open>\<^verbatim>\<open>Image.getbbox\<close>, line 38.\<close>

definition getbbox :: "env \<Rightarrow> store \<Rightarrow> image \<Rightarrow> error + pyfloat list" where
  "getbbox E heap h =
     (case lookup heap (svg (canvas h)) of
        None \<Rightarrow> Inl InvalidRef
      | Some x \<Rightarrow> floats_of (py_float E) (str_split E (getAttribute x ''viewBox'')))"

text \<open>\<^verbatim>\<open>Image.resize\<close>, lines 45-47.\<close>

definition resize :: "env \<Rightarrow> store \<Rightarrow> image \<Rightarrow> pyval \<Rightarrow> error + store \<times> image" where
  "resize E heap h size_arg =
     andthen (image_init E heap size_arg) (\<lambda>(heap1, copy).
     andthen (cloneNode heap1 (svg (canvas h))) (\<lambda>(heap2, a).
       Inr (heap2, copy\<lparr>canvas := (canvas copy)\<lparr>svg := a\<rparr>\<rparr>)))"

text \<open>The float an operand of mixed arithmetic stands for.\<close>

fun to_float :: "env \<Rightarrow> pynum \<Rightarrow> error + pyfloat" where
  "to_float E (PFloat x) = Inr x"
| "to_float E (PInt i) = (case float_of_int E i of None \<Rightarrow> Inl OverflowError | Some x \<Rightarrow> Inr x)"

text \<open>
  \<^verbatim>\<open>a - b\<close> on numbers: an int when both are ints; otherwise both operands are taken
  as floats and the result is a float.
\<close>

fun num_sub :: "env \<Rightarrow> pynum \<Rightarrow> pynum \<Rightarrow> error + pynum" where
  "num_sub E (PInt a) (PInt b) = Inr (PInt (a - b))"
| "num_sub E a b =
     andthen (to_float E a) (\<lambda>x. andthen (to_float E b) (\<lambda>y. Inr (PFloat (fsub E x y))))"

text \<open>\<^verbatim>\<open>a - b\<close> on values: none of the other values of \<open>pyval\<close> supports it.\<close>

fun py_sub :: "env \<Rightarrow> pyval \<Rightarrow> pyval \<Rightarrow> error + pynum" where
  "py_sub E (PNum a) (PNum b) = num_sub E a b"
| "py_sub E _ _ = Inl TypeError"

text \<open>True division \<^verbatim>\<open>a / b\<close> of floats: \<^verbatim>\<open>ZeroDivisionError\<close> on a zero divisor.\<close>

definition float_truediv :: "env \<Rightarrow> pyfloat \<Rightarrow> pyfloat \<Rightarrow> error + pyfloat" where
  "float_truediv E a b = (if is_zero b then Inl ZeroDivisionError else Inr (fdiv E a b))"

text \<open>
  True division \<^verbatim>\<open>a / b\<close> of numbers, always a float. Two ints are divided as ints:
  \<^verbatim>\<open>ZeroDivisionError\<close> on the divisor 0, \<^verbatim>\<open>OverflowError\<close> when the quotient is too
  large. Otherwise both operands are taken as floats first.
\<close>

fun num_truediv :: "env \<Rightarrow> pynum \<Rightarrow> pynum \<Rightarrow> error + pyfloat" where
  "num_truediv E (PInt a) (PInt b) =
     (if b = 0 then Inl ZeroDivisionError
      else case int_truediv E a b of None \<Rightarrow> Inl OverflowError | Some q \<Rightarrow> Inr q)"
| "num_truediv E a b =
     andthen (to_float E a) (\<lambda>x. andthen (to_float E b) (\<lambda>y. float_truediv E x y))"

text \<open>\<^verbatim>\<open>bbox[i]\<close> on the list of floats.\<close>

definition item :: "pyfloat list \<Rightarrow> nat \<Rightarrow> error + pyfloat" where
  "item bbox i = (if i < length bbox then Inr (bbox ! i) else Inl IndexError)"

text \<open>Line 69: \<^verbatim>\<open>(bbox[2] - bbox[0]) / (bbox[3] - bbox[1])\<close>.\<close>

definition current_ratio :: "env \<Rightarrow> pyfloat list \<Rightarrow> error + pyfloat" where
  "current_ratio E bbox =
     andthen (item bbox 2) (\<lambda>b2. andthen (item bbox 0) (\<lambda>b0.
     andthen (item bbox 3) (\<lambda>b3. andthen (item bbox 1) (\<lambda>b1.
       float_truediv E (fsub E b2 b0) (fsub E b3 b1)))))"

text \<open>Line 70: \<^verbatim>\<open>(box[2] - box[0]) / (box[3] - box[1])\<close>.\<close>

definition wanted_ratio :: "env \<Rightarrow> pyval \<Rightarrow> error + pyfloat" where
  "wanted_ratio E box =
     andthen (py_getitem box 2) (\<lambda>x2. andthen (py_getitem box 0) (\<lambda>x0.
     andthen (py_sub E x2 x0) (\<lambda>w.
     andthen (py_getitem box 3) (\<lambda>x3. andthen (py_getitem box 1) (\<lambda>x1.
     andthen (py_sub E x3 x1) (\<lambda>h.
       num_truediv E w h))))))"

text \<open>
  Lines 71-78: the branch on the two ratios and the updates of \<open>bbox\<close>. The divisor
  of lines 73 and 77 is the int 2, that is the float 2.0.
\<close>

definition adjust_bbox :: "env \<Rightarrow> pyfloat list \<Rightarrow> pyfloat \<Rightarrow> pyfloat \<Rightarrow> error + pyfloat list" where
  "adjust_bbox E bbox current_aspect_ratio wanted_aspect_ratio =
     (if fgt current_aspect_ratio wanted_aspect_ratio then
        andthen (item bbox 3) (\<lambda>b3.
        let new_width = fmul E wanted_aspect_ratio b3 in
        andthen (item bbox 0) (\<lambda>b0. andthen (item bbox 2) (\<lambda>b2.
        andthen (float_truediv E (fsub E b2 new_width) (Finite 2)) (\<lambda>d.
        let bbox1 = bbox[0 := fadd E b0 d] in
          Inr (bbox1[2 := new_width])))))
      else
        andthen (item bbox 2) (\<lambda>b2.
        andthen (float_truediv E b2 wanted_aspect_ratio) (\<lambda>new_height.
        andthen (item bbox 1) (\<lambda>b1. andthen (item bbox 3) (\<lambda>b3.
        andthen (float_truediv E (fsub E b3 new_height) (Finite 2)) (\<lambda>d.
        let bbox1 = bbox[1 := fadd E b1 d] in
          Inr (bbox1[3 := new_height])))))))"

text \<open>Line 79: \<^verbatim>\<open>box[2] - box[0], box[3] - box[1]\<close>.\<close>

definition box_size :: "env \<Rightarrow> pyval \<Rightarrow> error + pyval list" where
  "box_size E box =
     andthen (py_getitem box 2) (\<lambda>x2. andthen (py_getitem box 0) (\<lambda>x0.
     andthen (py_sub E x2 x0) (\<lambda>w.
     andthen (py_getitem box 3) (\<lambda>x3. andthen (py_getitem box 1) (\<lambda>x1.
     andthen (py_sub E x3 x1) (\<lambda>h.
       Inr [PNum w, PNum h]))))))"

text \<open>What \<^verbatim>\<open>'{}'.format\<close> writes for a number.\<close>

fun py_str :: "env \<Rightarrow> pynum \<Rightarrow> string" where
  "py_str E (PInt i) = str_int i"
| "py_str E (PFloat x) = float_repr E x"

text \<open>
  \<^verbatim>\<open>'{k}'.format(*args)\<close> picks the argument of index \<open>k\<close>; an argument that is not a
  number cannot occur where the module formats (\<open>TypeError\<close> keeps the function total).
\<close>

definition format_arg :: "env \<Rightarrow> pyval list \<Rightarrow> nat \<Rightarrow> error + string" where
  "format_arg E args k =
     (if k < length args then
        (case args ! k of PNum n \<Rightarrow> Inr (py_str E n) | _ \<Rightarrow> Inl TypeError)
      else Inl IndexError)"

text \<open>Line 80: \<^verbatim>\<open>'{0} {1} {2} {3}'.format(*bbox)\<close>.\<close>

definition format_bbox :: "env \<Rightarrow> pyfloat list \<Rightarrow> error + string" where
  "format_bbox E bbox =
     andthen (item bbox 0) (\<lambda>b0. andthen (item bbox 1) (\<lambda>b1.
     andthen (item bbox 2) (\<lambda>b2. andthen (item bbox 3) (\<lambda>b3.
       Inr (float_repr E b0 @ '' '' @ float_repr E b1 @ '' '' @
            float_repr E b2 @ '' '' @ float_repr E b3)))))"

text \<open>\<^verbatim>\<open>Image.crop\<close>, lines 65-83.\<close>

definition crop :: "env \<Rightarrow> store \<Rightarrow> image \<Rightarrow> pyval \<Rightarrow> error + store \<times> image" where
  "crop E heap h box =
     andthen (image_init E heap (PTuple (im_size h))) (\<lambda>(heap1, copy0).
     andthen (cloneNode heap1 (svg (canvas h))) (\<lambda>(heap2, a).
     let copy = copy0\<lparr>canvas := (canvas copy0)\<lparr>svg := a\<rparr>\<rparr> in
     if truthy box then
       andthen (getbbox E heap2 h) (\<lambda>bbox.
       andthen (current_ratio E bbox) (\<lambda>current_aspect_ratio.
       andthen (wanted_ratio E box) (\<lambda>wanted_aspect_ratio.
       andthen (adjust_bbox E bbox current_aspect_ratio wanted_aspect_ratio) (\<lambda>bbox'.
       andthen (box_size E box) (\<lambda>sz.
       andthen (format_bbox E bbox') (\<lambda>vb.
       andthen (format_arg E sz 0) (\<lambda>w.
       andthen (format_arg E sz 1) (\<lambda>ht.
         Inr (set_attribute
                (set_attribute (set_attribute heap2 a ''viewBox'' vb) a ''width'' w)
                a ''height'' ht,
              copy\<lparr>im_size := sz\<rparr>)))))))))
     else Inr (heap2, copy)))"

text \<open>The element a handle points to, and one of its attributes.\<close>

definition document :: "store \<Rightarrow> image \<Rightarrow> xml option" where
  "document heap h = lookup heap (svg (canvas h))"

definition attribute :: "store \<Rightarrow> image \<Rightarrow> string \<Rightarrow> string option" where
  "attribute heap h k = map_option (\<lambda>x. getAttribute x k) (document heap h)"

section \<open>load\<close>

text \<open>
  What \<^verbatim>\<open>load\<close> is given as \<^verbatim>\<open>fp\<close>: a \<^verbatim>\<open>str\<close>, a \<^verbatim>\<open>pathlib.Path\<close>, an \<^verbatim>\<open>io.StringIO\<close>, or
  an object of any other type.
\<close>

datatype source = SrcStr string | SrcPath string | SrcStringIO | SrcOther

text \<open>
  Line 192, \<^verbatim>\<open>raise ValueError("bad mode %r" % mode)\<close>: the message is formatted
  first, and \<^verbatim>\<open>%\<close> takes a tuple on its right for the list of its arguments, so a
  tuple that does not hold exactly one item raises \<^verbatim>\<open>TypeError\<close> there.
\<close>

fun bad_mode :: "pyval \<Rightarrow> error + 'a" where
  "bad_mode (PTuple xs) = (if length xs = 1 then Inl ValueError else Inl TypeError)"
| "bad_mode _ = Inl ValueError"

text \<open>
  \<^verbatim>\<open>load(fp, mode='r')\<close>, lines 176-210. The result \<open>None\<close> is the bare \<^verbatim>\<open>return\<close> of
  line 206.
\<close>

definition load :: "env \<Rightarrow> store \<Rightarrow> source \<Rightarrow> pyval \<Rightarrow> error + store \<times> image option" where
  "load E heap src md =
     (if md \<noteq> PStr ''r'' then bad_mode md
      else if src = SrcStringIO then Inl ValueError
      else
        (case (case src of
                 SrcPath p \<Rightarrow> Inr (path_resolve E p)
               | SrcStr s \<Rightarrow> Inr s
               | _ \<Rightarrow> Inl RuntimeError) of
           Inl e \<Rightarrow> Inl e
         | Inr filename \<Rightarrow>
             (case svg2rlg E filename of
                None \<Rightarrow> Inr (heap, None)
              | Some d \<Rightarrow>
                  (case image_init E heap
                          (PTuple [PNum (drawing_width d), PNum (drawing_height d)]) of
                     Inl e \<Rightarrow> Inl e
                   | Inr (heap1, im) \<Rightarrow>
                       Inr (heap1[svg (canvas im) :=
                                    render_draw E d (heap1 ! svg (canvas im))],
                            Some im)))))"

section \<open>new\<close>

text \<open>
  Python binds the arguments of a call to the parameters of the \<^verbatim>\<open>def\<close>: positional
  arguments in order, then keywords by name, then defaults. Too many positional
  arguments, an unknown keyword, a parameter given twice and a parameter left
  without a value each raise \<^verbatim>\<open>TypeError\<close>.
\<close>

fun bind_keywords ::
  "string list \<Rightarrow> (string \<times> pyval) list \<Rightarrow> (string \<times> pyval) list \<Rightarrow>
     error + (string \<times> pyval) list" where
  "bind_keywords params bound [] = Inr bound"
| "bind_keywords params bound ((k, v) # kws) =
     (if k \<notin> set params \<or> k \<in> set (map fst bound) then Inl TypeError
      else bind_keywords params (bound @ [(k, v)]) kws)"

definition bind_args ::
  "string list \<Rightarrow> (string \<times> pyval) list \<Rightarrow> pyval list \<Rightarrow> (string \<times> pyval) list \<Rightarrow>
     error + pyval list" where
  "bind_args params defaults args kwargs =
     (if length args > length params then Inl TypeError
      else
        andthen (bind_keywords params (zip params args) kwargs) (\<lambda>bound.
          case those (map (map_of (bound @ defaults)) params) of
            None \<Rightarrow> Inl TypeError
          | Some vs \<Rightarrow> Inr vs))"

text \<open>Unpacking \<^verbatim>\<open>*v\<close> into positional arguments.\<close>

fun unpack :: "pyval \<Rightarrow> error + pyval list" where
  "unpack (PTuple xs) = Inr xs"
| "unpack (PList xs) = Inr xs"
| "unpack (PStr s) = Inr (map (\<lambda>c. PStr [c]) s)"
| "unpack (PBytes s) = Inr (map (\<lambda>c. PNum (PInt (of_char c))) s)"
| "unpack _ = Inl TypeError"

definition arg_or :: "pyval \<Rightarrow> pyval list \<Rightarrow> nat \<Rightarrow> pyval" where
  "arg_or d xs i = (if i < length xs then xs ! i else d)"

text \<open>\<^verbatim>\<open>Color(*color)\<close>: at most four arguments, the rest from the defaults.\<close>

definition make_color :: "pyval \<Rightarrow> error + color" where
  "make_color v =
     andthen (unpack v) (\<lambda>xs.
       if length xs > 4 then Inl TypeError
       else Inr \<lparr>red = arg_or (PNum (PInt 0)) xs 0, green = arg_or (PNum (PInt 0)) xs 1,
                 blue = arg_or (PNum (PInt 0)) xs 2, alpha = arg_or (PNum (PInt 1)) xs 3\<rparr>)"

text \<open>The body of \<^verbatim>\<open>new\<close>, lines 170-173, on the values of its three parameters.\<close>

definition new :: "env \<Rightarrow> store \<Rightarrow> pyval \<Rightarrow> pyval \<Rightarrow> pyval \<Rightarrow> error + store \<times> image" where
  "new E heap self size_arg color_arg =
     andthen (image_init E heap size_arg) (\<lambda>(heap1, im).
       if truthy color_arg then
         andthen (make_color color_arg) (\<lambda>c.
           Inr (heap1, im\<lparr>canvas := (canvas im)\<lparr>fill_color := Some c\<rparr>\<rparr>))
       else Inr (heap1, im))"

text \<open>
  A call of the module-level function, declared on line 169 as
  \<^verbatim>\<open>def new(self, size, color=None)\<close>.
\<close>

definition new_call ::
  "env \<Rightarrow> store \<Rightarrow> pyval list \<Rightarrow> (string \<times> pyval) list \<Rightarrow> error + store \<times> image" where
  "new_call E heap args kwargs =
     andthen (bind_args [''self'', ''size'', ''color''] [(''color'', PNone)] args kwargs)
       (\<lambda>vs. case vs of
                [self, size_arg, color_arg] \<Rightarrow> new E heap self size_arg color_arg
              | _ \<Rightarrow> Inl TypeError)"

section \<open>close\<close>

text \<open>
  The body of the \<^verbatim>\<open>try\<close>, lines 116-119. \<^verbatim>\<open>self.fp.close()\<close> raises \<^verbatim>\<open>AttributeError\<close>
  when the handle has no attribute \<open>fp\<close> and when \<open>fp\<close> is \<^verbatim>\<open>None\<close>. The assignment
  \<^verbatim>\<open>self.fp = None\<close> is the last statement, so a raise leaves the handle as it was.
\<close>

definition close_try :: "image \<Rightarrow> error + image" where
  "close_try h =
     andthen (case close__fp h of Has (Some e) \<Rightarrow> Inl e | _ \<Rightarrow> Inr h) (\<lambda>h1.
       case fp h1 of
         Missing \<Rightarrow> Inl AttributeError
       | Has None \<Rightarrow> Inl AttributeError
       | Has (Some f) \<Rightarrow>
           (case close_raises f of Some e \<Rightarrow> Inl e | None \<Rightarrow> Inr (h1\<lparr>fp := Has None\<rparr>)))"

text \<open>
  \<^verbatim>\<open>Image.close\<close>, lines 115-124: \<^verbatim>\<open>except Exception\<close> takes every error of the body.
\<close>

definition close :: "image \<Rightarrow> error + image" where
  "close h =
     (let h1 = (case close_try h of Inl msg \<Rightarrow> h | Inr h' \<Rightarrow> h')
      in Inr (h1\<lparr>map_attr := Has PNone, im_attr := Has PNone\<rparr>))"

section \<open>save\<close>

definition lower_char :: "char \<Rightarrow> char" where
  "lower_char c =
     (case map_of (zip ''ABCDEFGHIJKLMNOPQRSTUVWXYZ'' ''abcdefghijklmnopqrstuvwxyz'') c of
        None \<Rightarrow> c
      | Some d \<Rightarrow> d)"

text \<open>
  Line 159, \<^verbatim>\<open>Path(filename).suffix.lower()\<close>: pathlib takes a \<^verbatim>\<open>str\<close> and raises
  \<^verbatim>\<open>TypeError\<close> for \<^verbatim>\<open>bytes\<close>.
\<close>

fun suffix_of :: "env \<Rightarrow> pyval \<Rightarrow> error + string" where
  "suffix_of E (PStr s) = Inr (map lower_char (path_suffix E s))"
| "suffix_of E _ = Inl TypeError"

text \<open>Lines 149-157: the file name and whether \<^verbatim>\<open>save\<close> opens the file itself.\<close>

fun name_of_target :: "target \<Rightarrow> pyval \<times> bool" where
  "name_of_target (TStr s) = (PStr s, True)"
| "name_of_target (TBytes b) = (PBytes b, True)"
| "name_of_target (TPath p) = (PStr p, True)"
| "name_of_target (TFile (Has (PStr n))) = (PStr n, False)"
| "name_of_target (TFile (Has (PBytes n))) = (PBytes n, False)"
| "name_of_target (TFile _) = (PStr [], False)"

text \<open>Lines 163-164: \<^verbatim>\<open>builtins.open(filename, "w+b")\<close> when a path was given.\<close>

definition open_target :: "env \<Rightarrow> target \<Rightarrow> pyval \<Rightarrow> bool \<Rightarrow> error + sink" where
  "open_target E tgt filename open_fp =
     (if open_fp then
        (case filename of
           PStr f \<Rightarrow> (case open_error E f of Some e \<Rightarrow> Inl e | None \<Rightarrow> Inr (Opened f))
         | PBytes f \<Rightarrow> (case open_error E f of Some e \<Rightarrow> Inl e | None \<Rightarrow> Inr (Opened f))
         | _ \<Rightarrow> Inl TypeError)
      else Inr (Given tgt))"

text \<open>
  \<^verbatim>\<open>Image.save\<close>, lines 147-166. The result is the sink together with the document
  that \<^verbatim>\<open>writexml\<close> serializes into it, when \<^verbatim>\<open>writexml\<close> does not raise.
\<close>

definition save :: "env \<Rightarrow> store \<Rightarrow> image \<Rightarrow> target \<Rightarrow> pyval \<Rightarrow> error + sink \<times> xml" where
  "save E heap h tgt fmt =
     (let (filename, open_fp) = name_of_target tgt in
      andthen (suffix_of E filename) (\<lambda>suffix.
        if fmt \<noteq> PStr ''SVG'' \<and> suffix \<noteq> ''.svg'' then Inl ValueError
        else
          andthen (open_target E tgt filename open_fp) (\<lambda>out.
            case document heap h of
              None \<Rightarrow> Inl InvalidRef
            | Some x \<Rightarrow>
                (case writexml_error E x out of
                   Some e \<Rightarrow> Inl e
                 | None \<Rightarrow> Inr (out, x)))))"

section \<open>A sample environment\<close>

text \<open>
  Concrete functions for the parameters, to run the model on examples. The theorems
  below hold for every environment; this one shows that their hypotheses can be met.
  \<^item> \<open>float\<close> reads unsigned decimal integer literals.
  \<^item> The text of a float is that of a whole non-negative number.
  \<^item> The arithmetic is exact on the rationals. Python's result is the exact one
    whenever that is a float, as it is at every value of the examples (0, 1/2, 1,
    10, 20, 25, 50, 100 and their sums and differences).
  \<^item> \<open>split\<close> cuts at ASCII whitespace.
  \<^item> The suffix is that of a POSIX file name, and the parser knows one file.
  \<^item> \<open>writexml\<close> raises \<^verbatim>\<open>TypeError\<close> on a file that \<^verbatim>\<open>save\<close> opened, which is a
    binary file, and writes into an object it is given.
\<close>

definition float_of_digits :: "string \<Rightarrow> pyfloat option" where
  "float_of_digits s =
     (if s \<noteq> [] \<and> list_all (\<lambda>c. 48 \<le> (of_char c :: nat) \<and> (of_char c :: nat) \<le> 57) s
      then Some (Finite (of_nat (foldl (\<lambda>a c. 10 * a + (of_char c - 48)) 0 s)))
      else None)"

fun whole_repr :: "pyfloat \<Rightarrow> string" where
  "whole_repr (Finite q) = str_int (floor q) @ ''.0''"
| "whole_repr NegZero = ''-0.0''"
| "whole_repr PosInf = ''inf''"
| "whole_repr NegInf = ''-inf''"
| "whole_repr NaN = ''nan''"

fun exact :: "(rat \<Rightarrow> rat \<Rightarrow> rat) \<Rightarrow> pyfloat \<Rightarrow> pyfloat \<Rightarrow> pyfloat" where
  "exact f (Finite x) (Finite y) = Finite (f x y)"
| "exact f _ _ = NaN"

definition is_space :: "char \<Rightarrow> bool" where
  "is_space c = (of_char c \<in> {9, 10, 11, 12, 13, 28, 29, 30, 31, 32 :: nat})"

fun split_from :: "string \<Rightarrow> string \<Rightarrow> string list" where
  "split_from cur [] = (if cur = [] then [] else [cur])"
| "split_from cur (c # cs) =
     (if is_space c then (if cur = [] then split_from [] cs else cur # split_from [] cs)
      else split_from (cur @ [c]) cs)"

definition ascii_split :: "string \<Rightarrow> string list" where
  "ascii_split s = split_from [] s"

definition posix_suffix :: "string \<Rightarrow> string" where
  "posix_suffix s =
     (let name = rev (takeWhile (\<lambda>c. c \<noteq> CHR ''/'') (rev s));
          ext = rev (takeWhile (\<lambda>c. c \<noteq> CHR ''.'') (rev name))
      in if CHR ''.'' \<in> set name \<and> ext \<noteq> [] \<and> length ext + 1 < length name
         then CHR ''.'' # ext else [])"

definition sample_drawing :: drawing where
  "sample_drawing =
     \<lparr>drawing_width = PFloat (Finite 10), drawing_height = PFloat (Finite 20),
      contents = ''rect''\<rparr>"

definition sample_env :: env where
  "sample_env =
     \<lparr>py_float = float_of_digits,
      float_repr = whole_repr,
      fsub = exact (\<lambda>x y. x - y),
      fadd = exact (\<lambda>x y. x + y),
      fmul = exact (\<lambda>x y. x * y),
      fdiv = exact (\<lambda>x y. x / y),
      float_of_int = (\<lambda>i. Some (Finite (of_int i))),
      int_truediv = (\<lambda>a b. Some (Finite (of_int a / of_int b))),
      str_split = ascii_split,
      blank_svg = (\<lambda>sz. Element ''svg'' [] []),
      svg2rlg = (\<lambda>f. if f = ''/tmp/a.svg'' then Some sample_drawing else None),
      render_draw = (\<lambda>d x. case x of Element t as cs \<Rightarrow> Element t as (cs @ [Element (contents d) [] []])),
      path_resolve = (\<lambda>p. p),
      path_suffix = posix_suffix,
      open_error = (\<lambda>f. if f = [] then Some OSError else None),
      writexml_error = (\<lambda>x out. case out of Opened f \<Rightarrow> Some TypeError | Given t \<Rightarrow> None)\<rparr>"

text \<open>A store with one document whose view-box is \<^verbatim>\<open>0 0 100 100\<close>, and its handle.\<close>

definition sample_store :: store where
  "sample_store = [Element ''svg'' [(''viewBox'', ''0 0 100 100'')] []]"

definition sample_image :: image where
  "sample_image =
     \<lparr>canvas = \<lparr>svg = 0, fill_color = None\<rparr>,
      im_size = [PNum (PInt 100), PNum (PInt 100)], mode = PNone,
      fp = Missing, close__fp = Missing, map_attr = Missing, im_attr = Missing\<rparr>"

section \<open>Notions used to state the properties\<close>

text \<open>A size of exactly two numbers.\<close>

definition numeric_size :: "image \<Rightarrow> bool" where
  "numeric_size h = (length (im_size h) = 2 \<and> list_all is_number (im_size h))"

text \<open>Two numbers that are both strictly positive.\<close>

fun positive :: "pyval \<Rightarrow> bool" where
  "positive (PNum (PInt i)) = (0 < i)"
| "positive (PNum (PFloat x)) = fgt x (Finite 0)"
| "positive _ = False"

definition positive_dims :: "pyval list \<Rightarrow> bool" where
  "positive_dims xs = (length xs = 2 \<and> list_all positive xs)"

text \<open>The handle that \<^verbatim>\<open>__init__\<close> makes for a canvas element at address \<open>a\<close>.\<close>

definition fresh_image :: "addr \<Rightarrow> pyval list \<Rightarrow> image" where
  "fresh_image a xs =
     \<lparr>canvas = \<lparr>svg = a, fill_color = None\<rparr>, im_size = xs, mode = PNone,
      fp = Missing, close__fp = Missing, map_attr = Missing, im_attr = Missing\<rparr>"

text \<open>A box of four numbers as the tuple passed to \<^verbatim>\<open>crop\<close>.\<close>

fun box_of :: "pynum \<times> pynum \<times> pynum \<times> pynum \<Rightarrow> pyval" where
  "box_of (left, upper, right, lower) = PTuple [PNum left, PNum upper, PNum right, PNum lower]"

text \<open>
  The width and the height of a box, \<open>right - left\<close> and \<open>lower - upper\<close>, and the
  requested aspect ratio, their quotient, in Python's arithmetic.
\<close>

fun box_dims :: "env \<Rightarrow> pynum \<times> pynum \<times> pynum \<times> pynum \<Rightarrow> error + pynum \<times> pynum" where
  "box_dims E (left, upper, right, lower) =
     andthen (num_sub E right left) (\<lambda>w. andthen (num_sub E lower upper) (\<lambda>h. Inr (w, h)))"

definition ratio_of_box :: "env \<Rightarrow> pynum \<times> pynum \<times> pynum \<times> pynum \<Rightarrow> error + pyfloat" where
  "ratio_of_box E box = andthen (box_dims E box) (\<lambda>(w, h). num_truediv E w h)"

text \<open>
  The view-box of a crop in the words of the specification, for the current
  bounding box and the requested ratio: compare the two aspect ratios; shrink the
  width and re-centre horizontally, or shrink the height and re-centre vertically.
\<close>

fun spec_view_box :: "env \<Rightarrow> pyfloat \<times> pyfloat \<times> pyfloat \<times> pyfloat \<Rightarrow> pyfloat \<Rightarrow> pyfloat list" where
  "spec_view_box E (current_left, current_upper, current_right, current_bottom)
                 requested_ratio =
     (let current_ratio =
            fdiv E (fsub E current_right current_left) (fsub E current_bottom current_upper)
      in if fgt current_ratio requested_ratio then
           (let new_width = fmul E requested_ratio current_bottom
            in [fadd E current_left (fdiv E (fsub E current_right new_width) (Finite 2)),
                current_upper, new_width, current_bottom])
         else
           (let new_height = fdiv E current_right requested_ratio
            in [current_left,
                fadd E current_upper (fdiv E (fsub E current_bottom new_height) (Finite 2)),
                current_right, new_height]))"



text \<open>The document \<^verbatim>\<open>crop\<close> leaves in the new handle: the clone with three attributes set.\<close>

definition cropped :: "xml \<Rightarrow> string \<Rightarrow> string \<Rightarrow> string \<Rightarrow> xml" where
  "cropped x vb w ht =
     setAttribute (setAttribute (setAttribute x ''viewBox'' vb) ''width'' w) ''height'' ht"

text \<open>The size and an attribute of the handle an operation returns, if it returns one.\<close>

definition result_size :: "error + store \<times> image \<Rightarrow> pyval list option" where
  "result_size r = (case r of Inl e \<Rightarrow> None | Inr (heap', h') \<Rightarrow> Some (im_size h'))"

definition result_attribute :: "error + store \<times> image \<Rightarrow> string \<Rightarrow> string option" where
  "result_attribute r k = (case r of Inl e \<Rightarrow> None | Inr (heap', h') \<Rightarrow> attribute heap' h' k)"


text \<open>The handle an operation returns, if it returns one.\<close>

definition handle_of :: "error + store \<times> image \<Rightarrow> image option" where
  "handle_of r = (case r of Inl e \<Rightarrow> None | Inr (heap', h') \<Rightarrow> Some h')"

definition loaded_handle :: "error + store \<times> image option \<Rightarrow> image option" where
  "loaded_handle r = (case r of Inl e \<Rightarrow> None | Inr (heap', h') \<Rightarrow> h')"

text \<open>The size pair \<open>(10, 20)\<close> and the colour red of the examples.\<close>

definition size_10_20 :: pyval where
  "size_10_20 = PTuple [PNum (PInt 10), PNum (PInt 20)]"

definition rgb_red :: pyval where
  "rgb_red = PTuple [PNum (PInt 255), PNum (PInt 0), PNum (PInt 0)]"

text \<open>A handle with an open file whose \<^verbatim>\<open>close()\<close> raises.\<close>

definition failing_file_image :: image where
  "failing_file_image = sample_image\<lparr>fp := Has (Some \<lparr>close_raises = Some OSError\<rparr>)\<rparr>"

text \<open>The document of a handle \<open>h\<close> in the store an operation leaves.\<close>

definition kept_source :: "error + store \<times> image \<Rightarrow> image \<Rightarrow> xml option" where
  "kept_source r h = (case r of Inl e \<Rightarrow> None | Inr (heap', h') \<Rightarrow> document heap' h)"

section \<open>Basic facts\<close>

lemma andthen_simps [simp]:
  "andthen (Inl e) f = Inl e" "andthen (Inr x) f = f x"
  by (simp_all add: andthen_def)

lemma andthen_Inr_iff:
  "andthen m f = Inr y \<longleftrightarrow> (\<exists>x. m = Inr x \<and> f x = Inr y)"
  by (cases m) simp_all

lemma two_numbers:
  "length xs = 2 \<and> is_number (xs ! 0) \<and> is_number (xs ! 1) \<longleftrightarrow>
   length xs = 2 \<and> list_all is_number xs"
  by (cases xs; cases "tl xs"; cases "tl (tl xs)") auto

lemma fresh_image_sel [simp]:
  "im_size (fresh_image a xs) = xs" "svg (canvas (fresh_image a xs)) = a"
  by (simp_all add: fresh_image_def)

lemma image_init_Inr:
  "image_init E heap sz = Inr (heap', h') \<longleftrightarrow>
     (\<exists>xs. seq_items sz = Some xs \<and> length xs = 2 \<and> list_all is_number xs \<and>
           heap' = heap @ [blank_svg E xs] \<and> h' = fresh_image (length heap) xs)"
  unfolding image_init_def fresh_image_def alloc_def
  by (cases "seq_items sz") (auto simp: two_numbers simp del: One_nat_def)

lemma image_init_tuple:
  "length xs = 2 \<Longrightarrow> list_all is_number xs \<Longrightarrow>
   image_init E heap (PTuple xs) = Inr (heap @ [blank_svg E xs], fresh_image (length heap) xs)"
  by (simp add: image_init_Inr)

lemma lookup_append [simp]: "a < length heap \<Longrightarrow> lookup (heap @ ys) a = lookup heap a"
  by (simp add: lookup_def nth_append)

lemma lookup_Some_iff: "lookup heap a = Some x \<longleftrightarrow> a < length heap \<and> heap ! a = x"
  by (auto simp: lookup_def)

lemma lookup_clone: "lookup (heap @ [y, x]) (Suc (length heap)) = Some x"
  by (simp add: lookup_def nth_append)

lemma cloneNode_append:
  "lookup heap a = Some x \<Longrightarrow>
   cloneNode (heap @ ys) a = Inr (heap @ ys @ [x], length heap + length ys)"
  by (auto simp: cloneNode_def alloc_def lookup_def nth_append split: if_splits)

lemma map_of_put_attr: "map_of (put_attr k v as) k' = (if k' = k then Some v else map_of as k')"
  by (induction as) auto

lemma getAttribute_setAttribute:
  "getAttribute (setAttribute x k v) k' = (if k' = k then v else getAttribute x k')"
  by (cases x) (simp add: getAttribute_def map_of_put_attr)

lemma lookup_set_attribute:
  "lookup (set_attribute heap a k v) a' =
     (if a' = a then map_option (\<lambda>x. setAttribute x k v) (lookup heap a) else lookup heap a')"
  by (simp add: lookup_def set_attribute_def)

section \<open>resize and crop, unfolded\<close>


lemma resize_eq:
  assumes "document heap h = Some x" "length xs = 2" "list_all is_number xs"
  shows "resize E heap h (PTuple xs) =
           Inr (heap @ [blank_svg E xs, x], fresh_image (Suc (length heap)) xs)"
  using assms
  by (simp add: resize_def image_init_tuple cloneNode_append document_def fresh_image_def)

lemma crop_start:
  assumes "document heap h = Some x" "numeric_size h"
  shows "crop E heap h box =
     (let heap2 = heap @ [blank_svg E (im_size h), x]; a = Suc (length heap);
          copy = fresh_image a (im_size h) in
     if truthy box then
       andthen (getbbox E heap h) (\<lambda>bbox.
       andthen (current_ratio E bbox) (\<lambda>current_aspect_ratio.
       andthen (wanted_ratio E box) (\<lambda>wanted_aspect_ratio.
       andthen (adjust_bbox E bbox current_aspect_ratio wanted_aspect_ratio) (\<lambda>bbox'.
       andthen (box_size E box) (\<lambda>sz.
       andthen (format_bbox E bbox') (\<lambda>vb.
       andthen (format_arg E sz 0) (\<lambda>w.
       andthen (format_arg E sz 1) (\<lambda>ht.
         Inr (set_attribute
                (set_attribute (set_attribute heap2 a ''viewBox'' vb) a ''width'' w)
                a ''height'' ht,
              fresh_image a sz)))))))))
     else Inr (heap2, copy))"
proof -
  have a: "svg (canvas h) < length heap"
    using assms(1) by (simp add: document_def lookup_Some_iff)
  have g: "getbbox E (heap @ [blank_svg E (im_size h), x]) h = getbbox E heap h"
    using a by (simp add: getbbox_def)
  show ?thesis
    using assms g
    by (simp add: crop_def numeric_size_def image_init_tuple cloneNode_append document_def
        fresh_image_def Let_def)
qed

lemma current_ratio_4:
  "current_ratio E [b0, b1, b2, b3] = float_truediv E (fsub E b2 b0) (fsub E b3 b1)"
  by (simp add: current_ratio_def item_def)

lemma wanted_ratio_4: "wanted_ratio E (box_of b) = ratio_of_box E b"
  by (cases b) (simp add: wanted_ratio_def ratio_of_box_def andthen_def split: sum.splits)

lemma box_size_4:
  "box_size E (box_of b) = andthen (box_dims E b) (\<lambda>(w, ht). Inr [PNum w, PNum ht])"
  by (cases b) (simp add: box_size_def andthen_def split: sum.splits)


lemma two_not_zero [simp]: "\<not> is_zero (Finite 2)"
  by (simp add: is_zero_def)

lemma half_never_raises [simp]: "float_truediv E a (Finite 2) = Inr (fdiv E a (Finite 2))"
  by (simp add: float_truediv_def)

lemma adjust_bbox_4:
  "adjust_bbox E [b0, b1, b2, b3] (fdiv E (fsub E b2 b0) (fsub E b3 b1)) want =
     (if \<not> fgt (fdiv E (fsub E b2 b0) (fsub E b3 b1)) want \<and> is_zero want
      then Inl ZeroDivisionError
      else Inr (spec_view_box E (b0, b1, b2, b3) want))"
  by (simp add: adjust_bbox_def item_def float_truediv_def Let_def)

lemma format_bbox_4:
  "format_bbox E [a, b, c, d] =
     Inr (float_repr E a @ '' '' @ float_repr E b @ '' '' @ float_repr E c @ '' '' @
          float_repr E d)"
  by (simp add: format_bbox_def item_def)


lemma crop_box_eq:
  assumes doc: "document heap h = Some x" and sz: "numeric_size h"
    and bb: "getbbox E heap h = Inr [b0, b1, b2, b3]"
  shows "crop E heap h (box_of b) =
     (if is_zero (fsub E b3 b1) then Inl ZeroDivisionError
      else
        (case ratio_of_box E b of
           Inl e \<Rightarrow> Inl e
         | Inr want \<Rightarrow>
             if \<not> fgt (fdiv E (fsub E b2 b0) (fsub E b3 b1)) want \<and> is_zero want
             then Inl ZeroDivisionError
             else
               (case box_dims E b of
                  Inl e \<Rightarrow> Inl e
                | Inr (w, ht) \<Rightarrow>
                    (case format_bbox E (spec_view_box E (b0, b1, b2, b3) want) of
                       Inl e \<Rightarrow> Inl e
                     | Inr vb \<Rightarrow>
                         Inr (set_attribute
                               (set_attribute
                                 (set_attribute (heap @ [blank_svg E (im_size h), x])
                                    (Suc (length heap)) ''viewBox'' vb)
                                 (Suc (length heap)) ''width'' (py_str E w))
                               (Suc (length heap)) ''height'' (py_str E ht),
                              fresh_image (Suc (length heap)) [PNum w, PNum ht])))))"
proof -
  have t: "truthy (box_of b)"
    by (cases b) simp
  show ?thesis
    unfolding crop_start [OF doc sz] bb
    using t
    by (auto simp: current_ratio_4 wanted_ratio_4 box_size_4 adjust_bbox_4 float_truediv_def
        format_arg_def Let_def andthen_def
        simp del: spec_view_box.simps box_of.simps box_dims.simps
        split: sum.splits prod.splits)
qed


lemma document_after_crop:
  "document
     (set_attribute
        (set_attribute (set_attribute (heap @ [y, x]) (Suc (length heap)) ''viewBox'' vb)
           (Suc (length heap)) ''width'' w)
        (Suc (length heap)) ''height'' ht)
     (fresh_image (Suc (length heap)) sz) = Some (cropped x vb w ht)"
  by (simp add: document_def lookup_set_attribute lookup_clone cropped_def)

lemma attribute_after_crop:
  "attribute
     (set_attribute
        (set_attribute (set_attribute (heap @ [y, x]) (Suc (length heap)) ''viewBox'' vb)
           (Suc (length heap)) ''width'' w)
        (Suc (length heap)) ''height'' ht)
     (fresh_image (Suc (length heap)) sz) k =
   Some (if k = ''height'' then ht else if k = ''width'' then w
         else if k = ''viewBox'' then vb else getAttribute x k)"
  by (simp add: attribute_def document_def lookup_set_attribute
      getAttribute_setAttribute lookup_clone)

section \<open>The sample inputs, evaluated\<close>

lemma sample_numeric: "numeric_size sample_image"
  by (simp add: numeric_size_def sample_image_def)

lemma sample_document:
  "document sample_store sample_image = Some (Element ''svg'' [(''viewBox'', ''0 0 100 100'')] [])"
  by (simp add: document_def lookup_def sample_store_def sample_image_def)

lemma sample_getbbox:
  "getbbox sample_env sample_store sample_image =
     Inr [Finite 0, Finite 0, Finite 100, Finite 100]"
  by (simp add: getbbox_def lookup_def sample_store_def sample_image_def getAttribute_def
      ascii_split_def is_space_def sample_env_def float_of_digits_def)


lemma sample_arithmetic [simp]:
  "fsub sample_env (Finite x) (Finite y) = Finite (x - y)"
  "fadd sample_env (Finite x) (Finite y) = Finite (x + y)"
  "fmul sample_env (Finite x) (Finite y) = Finite (x * y)"
  "fdiv sample_env (Finite x) (Finite y) = Finite (x / y)"
  "int_truediv sample_env a b = Some (Finite (of_int a / of_int b))"
  "float_of_int sample_env a = Some (Finite (of_int a))"
  by (simp_all add: sample_env_def)


lemma sample_ratio:
  "ratio_of_box sample_env (PInt l, PInt u, PInt r, PInt lo) =
     (if lo = u then Inl ZeroDivisionError
      else Inr (Finite (of_int (r - l) / of_int (lo - u))))"
  by (simp add: ratio_of_box_def)



lemmas sample_crop = crop_box_eq [OF sample_document sample_numeric sample_getbbox]

lemma str_int_small: "str_int 50 = ''50''" "str_int 100 = ''100''"
  by (simp_all add: str_int_def digits_of.simps digit_def)

section \<open>crop, from its result\<close>

lemma box_size_Inr: "box_size E box = Inr sz \<Longrightarrow> \<exists>w ht. sz = [PNum w, PNum ht]"
  by (auto simp: box_size_def andthen_Inr_iff)

lemma cloneNode_Inr:
  "cloneNode heap a = Inr (heap', a') \<longleftrightarrow>
     (\<exists>x. lookup heap a = Some x \<and> heap' = heap @ [x] \<and> a' = length heap)"
  by (auto simp: cloneNode_def alloc_def split: option.splits)

lemma crop_Inr:
  assumes "crop E heap h box = Inr (heap', h')"
  shows "\<exists>y x. numeric_size h \<and> y = blank_svg E (im_size h) \<and>
           lookup (heap @ [y]) (svg (canvas h)) = Some x \<and>
           (if truthy box then
              \<exists>vb w ht.
                box_size E box = Inr [PNum w, PNum ht] \<and>
                heap' = set_attribute
                          (set_attribute
                             (set_attribute (heap @ [y, x]) (Suc (length heap)) ''viewBox'' vb)
                             (Suc (length heap)) ''width'' (py_str E w))
                          (Suc (length heap)) ''height'' (py_str E ht) \<and>
                h' = fresh_image (Suc (length heap)) [PNum w, PNum ht]
            else heap' = heap @ [y, x] \<and> h' = fresh_image (Suc (length heap)) (im_size h))"
proof -
  from assms obtain heap1 copy0 heap2 a where
    i: "image_init E heap (PTuple (im_size h)) = Inr (heap1, copy0)" and
    c: "cloneNode heap1 (svg (canvas h)) = Inr (heap2, a)" and
    r: "(let copy = copy0\<lparr>canvas := (canvas copy0)\<lparr>svg := a\<rparr>\<rparr> in
     if truthy box then
       andthen (getbbox E heap2 h) (\<lambda>bbox.
       andthen (current_ratio E bbox) (\<lambda>current_aspect_ratio.
       andthen (wanted_ratio E box) (\<lambda>wanted_aspect_ratio.
       andthen (adjust_bbox E bbox current_aspect_ratio wanted_aspect_ratio) (\<lambda>bbox'.
       andthen (box_size E box) (\<lambda>sz.
       andthen (format_bbox E bbox') (\<lambda>vb.
       andthen (format_arg E sz 0) (\<lambda>w.
       andthen (format_arg E sz 1) (\<lambda>ht.
         Inr (set_attribute
                (set_attribute (set_attribute heap2 a ''viewBox'' vb) a ''width'' w)
                a ''height'' ht,
              copy\<lparr>im_size := sz\<rparr>)))))))))
     else Inr (heap2, copy)) = Inr (heap', h')"
    unfolding crop_def by (auto simp: andthen_Inr_iff)
  from i have n: "numeric_size h" and h1: "heap1 = heap @ [blank_svg E (im_size h)]"
    and c0: "copy0 = fresh_image (length heap) (im_size h)"
    by (auto simp: image_init_Inr numeric_size_def)
  from c h1 obtain x where
    x: "lookup (heap @ [blank_svg E (im_size h)]) (svg (canvas h)) = Some x" and
    h2: "heap2 = heap @ [blank_svg E (im_size h), x]" and a: "a = Suc (length heap)"
    by (auto simp: cloneNode_Inr)
  have copy: "copy0\<lparr>canvas := (canvas copy0)\<lparr>svg := a\<rparr>\<rparr> = fresh_image (Suc (length heap)) (im_size h)"
    by (simp add: c0 a fresh_image_def)
  show ?thesis
  proof (cases "truthy box")
    case False
    with r copy h2 n x show ?thesis by (auto simp: Let_def)
  next
    case True
    with r copy obtain sz vb w ht where
      s: "box_size E box = Inr sz" and w: "format_arg E sz 0 = Inr w" and
      ht: "format_arg E sz 1 = Inr ht" and
      res: "heap' = set_attribute
                (set_attribute (set_attribute heap2 a ''viewBox'' vb) a ''width'' w)
                a ''height'' ht"
        "h' = (fresh_image (Suc (length heap)) (im_size h))\<lparr>im_size := sz\<rparr>"
      by (auto simp: Let_def andthen_Inr_iff)
    from s obtain w' ht' where sz: "sz = [PNum w', PNum ht']"
      using box_size_Inr by blast
    from w ht sz have "w = py_str E w'" "ht = py_str E ht'"
      by (simp_all add: format_arg_def)
    with True res sz s h2 a n x show ?thesis
      by (auto simp: fresh_image_def)
  qed
qed

section \<open>The store under updates\<close>

lemma lookup_update:
  "lookup (heap[a := y]) a' = (if a' = a \<and> a < length heap then Some y else lookup heap a')"
  by (auto simp: lookup_def)

lemma length_set_attribute [simp]: "length (set_attribute heap a k v) = length heap"
  by (simp add: set_attribute_def)

lemma lookup_set_attribute_other:
  "a' \<noteq> a \<Longrightarrow> lookup (set_attribute heap a k v) a' = lookup heap a'"
  by (simp add: lookup_set_attribute)

lemma lookup_old: "a < length heap \<Longrightarrow> lookup (heap @ [y, x]) a = lookup heap a"
  by (simp add: lookup_def nth_append)

section \<open>new and save, unfolded\<close>

lemma new_call_second_positional:
  "length xs = 2 \<Longrightarrow> list_all is_number xs \<Longrightarrow>
   new_call E heap [first, PTuple xs] [(''color'', rgb_red)] =
     Inr (heap @ [blank_svg E xs],
          (fresh_image (length heap) xs)
            \<lparr>canvas := \<lparr>svg = length heap,
                         fill_color = Some \<lparr>red = PNum (PInt 255), green = PNum (PInt 0),
                                            blue = PNum (PInt 0), alpha = PNum (PInt 1)\<rparr>\<rparr>\<rparr>)"
  by (simp add: new_call_def bind_args_def new_def image_init_tuple rgb_red_def
      make_color_def arg_or_def fresh_image_def)

lemma save_text_name:
  assumes "name_of_target tgt = (PStr f, open_fp)"
  shows "save E heap h tgt fmt =
     (if fmt \<noteq> PStr ''SVG'' \<and> map lower_char (path_suffix E f) \<noteq> ''.svg'' then Inl ValueError
      else
        andthen (open_target E tgt (PStr f) open_fp) (\<lambda>out.
          case document heap h of
            None \<Rightarrow> Inl InvalidRef
          | Some x \<Rightarrow>
              (case writexml_error E x out of Some e \<Rightarrow> Inl e | None \<Rightarrow> Inr (out, x))))"
  using assms by (simp add: save_def)

lemma list3_case_Inr:
  "(case vs of [] \<Rightarrow> Inl e | [a] \<Rightarrow> Inl e | [a, b] \<Rightarrow> Inl e | [a, b, c] \<Rightarrow> f a b c
      | a # b # c # d # ds \<Rightarrow> Inl e) = Inr r \<Longrightarrow>
   \<exists>a b c. vs = [a, b, c] \<and> f a b c = Inr r"
  by (cases vs; cases "tl vs"; cases "tl (tl vs)"; cases "tl (tl (tl vs))") auto

lemma new_call_Inr:
  "new_call E heap args kwargs = Inr r \<Longrightarrow>
   \<exists>self size_arg color_arg. new E heap self size_arg color_arg = Inr r"
  unfolding new_call_def andthen_Inr_iff
  using list3_case_Inr by fast


section \<open>Python's arithmetic: the errors it can raise\<close>

lemma to_float_errors: "to_float E n = Inl e \<Longrightarrow> e = OverflowError"
  by (cases n) (auto split: option.splits)





lemma float_tests [simp]:
  "is_zero (Finite q) = (q = 0)"
  "fgt (Finite p) (Finite q) = (q < p)"
  by (simp_all add: is_zero_def fgt_def)

lemma bad_mode_raises [simp]: "bad_mode md \<noteq> Inr r"
  by (cases md) auto

section \<open>load: the guards\<close>

lemma load_guards:
  "seq_items md = None \<Longrightarrow> md \<noteq> PStr ''r'' \<Longrightarrow> load E heap src md = Inl ValueError"
  "load E heap src (PList xs) = Inl ValueError"
  "load E heap src (PTuple [v]) = Inl ValueError"
  "length xs \<noteq> 1 \<Longrightarrow> load E heap src (PTuple xs) = Inl TypeError"
  "load E heap SrcStringIO (PStr ''r'') = Inl ValueError"
  "load E heap SrcOther (PStr ''r'') = Inl RuntimeError"
  by (cases md; simp add: load_def)+

section \<open>crop\<close>



text \<open>
  C3 (as the code has it). When \<^verbatim>\<open>crop\<close> is given a box and returns, the \<open>width\<close>
  attribute written onto the cloned document is the text of the first item of the
  new handle's size and the \<open>height\<close> attribute is the text of the second item:
  \<^verbatim>\<open>'{1}'.format(*copy.size)\<close> picks the height.
\<close>

theorem crop_width_height_attributes:
  "truthy box \<and> crop E heap h box = Inr (heap', h') \<longrightarrow>
     (\<exists>w ht. im_size h' = [PNum w, PNum ht] \<and>
        attribute heap' h' ''width'' = Some (py_str E w) \<and>
        attribute heap' h' ''height'' = Some (py_str E ht))"
proof
  assume a: "truthy box \<and> crop E heap h box = Inr (heap', h')"
  then obtain y x vb w ht where
    "heap' = set_attribute
               (set_attribute
                  (set_attribute (heap @ [y, x]) (Suc (length heap)) ''viewBox'' vb)
                  (Suc (length heap)) ''width'' (py_str E w))
               (Suc (length heap)) ''height'' (py_str E ht)"
    "h' = fresh_image (Suc (length heap)) [PNum w, PNum ht]"
    using crop_Inr [of E heap h box heap' h'] by auto
  then show "\<exists>w ht. im_size h' = [PNum w, PNum ht] \<and>
        attribute heap' h' ''width'' = Some (py_str E w) \<and>
        attribute heap' h' ''height'' = Some (py_str E ht)"
    by (simp add: attribute_after_crop)
qed

theorem crop_width_height_attributes_witness:
  "truthy (box_of (PInt 0, PInt 0, PInt 50, PInt 100)) \<and>
   result_size
     (crop sample_env sample_store sample_image (box_of (PInt 0, PInt 0, PInt 50, PInt 100))) =
     Some [PNum (PInt 50), PNum (PInt 100)] \<and>
   result_attribute
     (crop sample_env sample_store sample_image (box_of (PInt 0, PInt 0, PInt 50, PInt 100)))
     ''width'' = Some (py_str sample_env (PInt 50)) \<and>
   result_attribute
     (crop sample_env sample_store sample_image (box_of (PInt 0, PInt 0, PInt 50, PInt 100)))
     ''height'' = Some (py_str sample_env (PInt 100))"
proof -
  obtain heap' h' where
    c: "crop sample_env sample_store sample_image (box_of (PInt 0, PInt 0, PInt 50, PInt 100)) =
          Inr (heap', h')" and
    s: "h' = fresh_image (Suc (length sample_store)) [PNum (PInt 50), PNum (PInt 100)]"
    by (simp add: sample_crop sample_ratio format_bbox_4 Let_def del: box_of.simps)
  show ?thesis
    using c s
      crop_width_height_attributes [of "box_of (PInt 0, PInt 0, PInt 50, PInt 100)"
        sample_env sample_store sample_image heap' h']
    by (auto simp: result_size_def result_attribute_def)
qed

theorem crop_height_attribute_counterexample:
  "result_size
     (crop sample_env sample_store sample_image (box_of (PInt 0, PInt 0, PInt 50, PInt 100))) =
     Some [PNum (PInt 50), PNum (PInt 100)] \<and>
   result_attribute
     (crop sample_env sample_store sample_image (box_of (PInt 0, PInt 0, PInt 50, PInt 100)))
     ''height'' = Some ''100'' \<and>
   py_str sample_env (PInt 50) = ''50''"
  by (simp add: sample_crop sample_ratio format_bbox_4 Let_def result_size_def
      result_attribute_def attribute_after_crop str_int_small del: box_of.simps)




section \<open>resize and crop: the clone\<close>

text \<open>
  C9. \<^verbatim>\<open>resize((w2, h2))\<close> on a handle of any size returns a new handle of size
  \<open>(w2, h2)\<close> whose document is a copy of the source's document at a new address:
  the source's document is unchanged, and whatever is written to the new handle's
  document afterwards, the source's document stays as it was. The same holds for the
  handle \<^verbatim>\<open>crop\<close> returns: its document is the copy of the source's document,
  as it is without a box and with the three attributes \<open>viewBox\<close>, \<open>width\<close> and
  \<open>height\<close> set with one, and the source's document is not touched.
\<close>

theorem resize_crop_clone_independent:
  "document heap h = Some x \<longrightarrow>
     (\<exists>heap' h'.
        resize E heap h (PTuple [PNum w2, PNum h2]) = Inr (heap', h') \<and>
        im_size h' = [PNum w2, PNum h2] \<and>
        document heap' h' = Some x \<and> document heap' h = Some x \<and>
        svg (canvas h') \<noteq> svg (canvas h) \<and>
        (\<forall>y. document (heap'[svg (canvas h') := y]) h = Some x \<and>
             document (heap'[svg (canvas h') := y]) h' = Some y)) \<and>
     (\<forall>box heap' h'.
        crop E heap h box = Inr (heap', h') \<longrightarrow>
          document heap' h = Some x \<and> svg (canvas h') \<noteq> svg (canvas h) \<and>
          (\<not> truthy box \<longrightarrow> document heap' h' = Some x) \<and>
          (truthy box \<longrightarrow>
             (\<exists>vb w ht. document heap' h' = Some (cropped x vb w ht))) \<and>
          (\<forall>y. document (heap'[svg (canvas h') := y]) h = Some x))"
proof (intro impI conjI)
  assume x: "document heap h = Some x"
  then have a: "svg (canvas h) < length heap" and l: "lookup heap (svg (canvas h)) = Some x"
    by (simp_all add: document_def lookup_Some_iff)
  have r: "resize E heap h (PTuple [PNum w2, PNum h2]) =
             Inr (heap @ [blank_svg E [PNum w2, PNum h2], x],
                  fresh_image (Suc (length heap)) [PNum w2, PNum h2])"
    using x by (simp add: resize_eq)
  show "\<exists>heap' h'.
        resize E heap h (PTuple [PNum w2, PNum h2]) = Inr (heap', h') \<and>
        im_size h' = [PNum w2, PNum h2] \<and>
        document heap' h' = Some x \<and> document heap' h = Some x \<and>
        svg (canvas h') \<noteq> svg (canvas h) \<and>
        (\<forall>y. document (heap'[svg (canvas h') := y]) h = Some x \<and>
             document (heap'[svg (canvas h') := y]) h' = Some y)"
    using a l by (auto simp: r document_def lookup_clone lookup_old lookup_update)
next
  assume x: "document heap h = Some x"
  show "\<forall>box heap' h'.
        crop E heap h box = Inr (heap', h') \<longrightarrow>
          document heap' h = Some x \<and> svg (canvas h') \<noteq> svg (canvas h) \<and>
          (\<not> truthy box \<longrightarrow> document heap' h' = Some x) \<and>
          (truthy box \<longrightarrow>
             (\<exists>vb w ht. document heap' h' = Some (cropped x vb w ht))) \<and>
          (\<forall>y. document (heap'[svg (canvas h') := y]) h = Some x)"
  proof (intro allI impI)
    fix box heap' h'
    assume c: "crop E heap h box = Inr (heap', h')"
    from x have a: "svg (canvas h) < length heap" and l: "lookup heap (svg (canvas h)) = Some x"
      by (simp_all add: document_def lookup_Some_iff)
    from crop_Inr [OF c] obtain x0 where
      lk: "lookup (heap @ [blank_svg E (im_size h)]) (svg (canvas h)) = Some x0" and
      rest: "if truthy box then
               \<exists>vb w ht.
                 box_size E box = Inr [PNum w, PNum ht] \<and>
                 heap' = set_attribute
                           (set_attribute
                              (set_attribute (heap @ [blank_svg E (im_size h), x0])
                                 (Suc (length heap)) ''viewBox'' vb)
                              (Suc (length heap)) ''width'' (py_str E w))
                           (Suc (length heap)) ''height'' (py_str E ht) \<and>
                 h' = fresh_image (Suc (length heap)) [PNum w, PNum ht]
             else heap' = heap @ [blank_svg E (im_size h), x0] \<and>
                  h' = fresh_image (Suc (length heap)) (im_size h)"
      by auto
    have x0: "x0 = x"
      using lk a l by simp
    have s: "svg (canvas h') = Suc (length heap)"
      using rest by (cases "truthy box") auto
    have old: "lookup heap' (svg (canvas h)) = Some x"
      using rest a l x0
      by (cases "truthy box") (auto simp: lookup_set_attribute_other lookup_old)
    have f: "\<not> truthy box \<Longrightarrow> heap' = heap @ [blank_svg E (im_size h), x]"
      using rest x0 by simp
    have t: "truthy box \<Longrightarrow> \<exists>vb w ht. document heap' h' = Some (cropped x vb w ht)"
      using rest x0 by (fastforce simp: document_after_crop)
    show "document heap' h = Some x \<and> svg (canvas h') \<noteq> svg (canvas h) \<and>
          (\<not> truthy box \<longrightarrow> document heap' h' = Some x) \<and>
          (truthy box \<longrightarrow>
             (\<exists>vb w ht. document heap' h' = Some (cropped x vb w ht))) \<and>
          (\<forall>y. document (heap'[svg (canvas h') := y]) h = Some x)"
      using old s a f t by (auto simp: document_def lookup_update lookup_clone)
  qed
qed

theorem resize_crop_clone_independent_witness:
  "document sample_store sample_image =
     Some (Element ''svg'' [(''viewBox'', ''0 0 100 100'')] []) \<and>
   result_size (resize sample_env sample_store sample_image size_10_20) =
     Some [PNum (PInt 10), PNum (PInt 20)] \<and>
   result_attribute (resize sample_env sample_store sample_image size_10_20) ''viewBox'' =
     Some ''0 0 100 100'' \<and>
   handle_of (crop sample_env sample_store sample_image PNone) \<noteq> None \<and>
   truthy (box_of (PInt 0, PInt 0, PInt 50, PInt 100)) \<and>
   handle_of
     (crop sample_env sample_store sample_image (box_of (PInt 0, PInt 0, PInt 50, PInt 100))) \<noteq>
     None \<and>
   kept_source
     (crop sample_env sample_store sample_image (box_of (PInt 0, PInt 0, PInt 50, PInt 100)))
     sample_image =
     Some (Element ''svg'' [(''viewBox'', ''0 0 100 100'')] [])"
proof -
  note inst = resize_crop_clone_independent [of sample_store sample_image
        "Element ''svg'' [(''viewBox'', ''0 0 100 100'')] []" sample_env "PInt 10" "PInt 20"]
  obtain heap' h' where
    r: "resize sample_env sample_store sample_image (PTuple [PNum (PInt 10), PNum (PInt 20)]) =
          Inr (heap', h')" and
    s: "im_size h' = [PNum (PInt 10), PNum (PInt 20)]" and
    d: "document heap' h' = Some (Element ''svg'' [(''viewBox'', ''0 0 100 100'')] [])"
    using sample_document inst by blast
  have c: "handle_of (crop sample_env sample_store sample_image PNone) \<noteq> None"
    by (simp add: crop_start [OF sample_document sample_numeric] handle_of_def Let_def)
  obtain heap2 h2 where
    b: "crop sample_env sample_store sample_image (box_of (PInt 0, PInt 0, PInt 50, PInt 100)) =
          Inr (heap2, h2)"
    by (simp add: sample_crop sample_ratio format_bbox_4 Let_def del: box_of.simps)
  have k: "document heap2 sample_image =
             Some (Element ''svg'' [(''viewBox'', ''0 0 100 100'')] [])"
    using sample_document inst b by blast
  have t: "truthy (box_of (PInt 0, PInt 0, PInt 50, PInt 100))"
    by simp
  show ?thesis
    using r s d c b k t sample_document
    by (simp add: result_size_def result_attribute_def attribute_def size_10_20_def
        getAttribute_def handle_of_def kept_source_def del: box_of.simps)
qed

section \<open>close\<close>

text \<open>
  C8. \<^verbatim>\<open>close()\<close> never raises: whatever the handle's file attributes are, also when
  closing the file raises, it returns with \<open>map\<close> and \<open>im\<close> set to \<^verbatim>\<open>None\<close>; and
  calling it again on the handle it leaves does not raise either and changes nothing.
\<close>

theorem close_never_raises:
  "\<exists>h1. close h = Inr h1 \<and> map_attr h1 = Has PNone \<and> im_attr h1 = Has PNone \<and>
        close h1 = Inr h1"
  by (cases "close__fp h"; cases "fp h")
     (auto simp: close_def close_try_def Let_def split: option.splits attr.splits)

section \<open>new\<close>

text \<open>
  C2. \<^verbatim>\<open>new((10, 20), color=(255, 0, 0))\<close> does not return a handle. The function is
  declared \<^verbatim>\<open>def new(self, size, color=None)\<close> at module level, so the size pair is
  bound to \<open>self\<close>, \<open>size\<close> is left without a value, and the call raises \<^verbatim>\<open>TypeError\<close>.
\<close>

theorem new_size_first_raises:
  "new_call E heap [size_10_20] [(''color'', rgb_red)] = Inl TypeError"
  by (simp add: new_call_def bind_args_def)

section \<open>save\<close>

text \<open>
  C7. With a \<^verbatim>\<open>bytes\<close> file name, given as the target or as the \<open>name\<close> of a file
  object, \<^verbatim>\<open>save\<close> raises \<^verbatim>\<open>TypeError\<close> at \<^verbatim>\<open>Path(filename)\<close>, before the format is
  looked at: neither \<^verbatim>\<open>ValueError\<close> nor a written document, whatever the format.
\<close>

theorem save_bytes_name_raises:
  "save E heap h (TBytes ''out.svg'') (PStr ''SVG'') = Inl TypeError \<and>
   save E heap h (TFile (Has (PBytes ''out.svg''))) (PStr ''SVG'') = Inl TypeError \<and>
   save E heap h (TBytes ''out.png'') PNone = Inl TypeError"
  by (simp add: save_def)

section \<open>The size of a handle\<close>

text \<open>
  C4 (as the code has it). Every handle returned by the constructor, \<^verbatim>\<open>new\<close>,
  \<^verbatim>\<open>load\<close>, \<^verbatim>\<open>resize\<close> or \<^verbatim>\<open>crop\<close> has a size of exactly two numbers: the items of the
  size given (constructor, \<^verbatim>\<open>resize\<close>), the differences \<open>box[2] - box[0]\<close> and
  \<open>box[3] - box[1]\<close> (\<^verbatim>\<open>crop\<close> with a box), or the source's size (\<^verbatim>\<open>crop\<close> without one).
  No operation looks at the sign of a dimension.
\<close>

theorem size_two_numbers:
  "(image_init E heap sz = Inr (heap', h') \<longrightarrow>
      numeric_size h' \<and> seq_items sz = Some (im_size h')) \<and>
   (new_call E heap args kwargs = Inr (heap', h') \<longrightarrow> numeric_size h') \<and>
   (load E heap src md = Inr (heap', Some h') \<longrightarrow> numeric_size h') \<and>
   (resize E heap h sz = Inr (heap', h') \<longrightarrow>
      numeric_size h' \<and> seq_items sz = Some (im_size h')) \<and>
   (crop E heap h box = Inr (heap', h') \<longrightarrow>
      numeric_size h' \<and>
      (if truthy box then box_size E box = Inr (im_size h') else im_size h' = im_size h))"
proof (intro conjI impI)
  assume "image_init E heap sz = Inr (heap', h')"
  then show "numeric_size h'" "seq_items sz = Some (im_size h')"
    by (auto simp: image_init_Inr numeric_size_def)
next
  assume "new_call E heap args kwargs = Inr (heap', h')"
  then obtain self size_arg color_arg where "new E heap self size_arg color_arg = Inr (heap', h')"
    using new_call_Inr by blast
  then show "numeric_size h'"
    by (auto simp: new_def andthen_Inr_iff image_init_Inr numeric_size_def fresh_image_def
        split: if_splits)
next
  assume "load E heap src md = Inr (heap', Some h')"
  then show "numeric_size h'"
    by (auto simp: load_def image_init_Inr numeric_size_def
        split: if_splits source.splits option.splits sum.splits)
next
  assume "resize E heap h sz = Inr (heap', h')"
  then show "numeric_size h'" "seq_items sz = Some (im_size h')"
    by (auto simp: resize_def andthen_Inr_iff image_init_Inr cloneNode_Inr numeric_size_def
        fresh_image_def)
next
  assume c: "crop E heap h box = Inr (heap', h')"
  show "numeric_size h'"
    using crop_Inr [OF c] by (cases "truthy box") (auto simp: numeric_size_def)
  show "if truthy box then box_size E box = Inr (im_size h') else im_size h' = im_size h"
    using crop_Inr [OF c] by (cases "truthy box") auto
qed

theorem size_two_numbers_witness:
  "map_option numeric_size (handle_of (image_init sample_env sample_store size_10_20)) =
     Some True \<and>
   map_option numeric_size
     (handle_of (new_call sample_env sample_store [PNone, size_10_20] [(''color'', rgb_red)])) =
     Some True \<and>
   map_option numeric_size
     (loaded_handle (load sample_env sample_store (SrcStr ''/tmp/a.svg'') (PStr ''r''))) =
     Some True \<and>
   map_option numeric_size (handle_of (resize sample_env sample_store sample_image size_10_20)) =
     Some True \<and>
   map_option numeric_size (handle_of (crop sample_env sample_store sample_image PNone)) =
     Some True"
proof -
  obtain h1 a1 where
    i: "image_init sample_env sample_store size_10_20 = Inr (h1, a1)"
    by (simp add: size_10_20_def image_init_tuple)
  obtain h2 a2 where
    n: "new_call sample_env sample_store [PNone, size_10_20] [(''color'', rgb_red)] = Inr (h2, a2)"
    by (simp add: size_10_20_def new_call_second_positional)
  obtain h3 a3 where
    l: "load sample_env sample_store (SrcStr ''/tmp/a.svg'') (PStr ''r'') = Inr (h3, Some a3)"
    by (simp add: load_def sample_env_def sample_drawing_def image_init_tuple)
  obtain h4 a4 where
    r: "resize sample_env sample_store sample_image size_10_20 = Inr (h4, a4)"
    by (simp add: size_10_20_def resize_eq [OF sample_document])
  obtain h5 a5 where
    c: "crop sample_env sample_store sample_image PNone = Inr (h5, a5)"
    by (simp add: crop_start [OF sample_document sample_numeric] Let_def)
  have "numeric_size a1"
    using i size_two_numbers [of sample_env sample_store size_10_20 h1 a1] by blast
  moreover have "numeric_size a2"
    using n size_two_numbers [of sample_env sample_store _ h2 a2 "[PNone, size_10_20]"
        "[(''color'', rgb_red)]"] by blast
  moreover have "numeric_size a3"
    using l size_two_numbers [of sample_env sample_store _ h3 a3 _ _ "SrcStr ''/tmp/a.svg''"
        "PStr ''r''"] by blast
  moreover have "numeric_size a4"
    using r size_two_numbers [of sample_env sample_store size_10_20 h4 a4 _ _ _ _ sample_image]
    by blast
  moreover have "numeric_size a5"
    using c size_two_numbers [of sample_env sample_store _ h5 a5 _ _ _ _ sample_image PNone]
    by blast
  ultimately show ?thesis
    by (simp add: i n l r c handle_of_def loaded_handle_def)
qed

theorem nonpositive_size_counterexample:
  "result_size (image_init sample_env sample_store (PTuple [PNum (PInt 0), PNum (PInt (- 5))])) =
     Some [PNum (PInt 0), PNum (PInt (- 5))] \<and>
   \<not> positive_dims [PNum (PInt 0), PNum (PInt (- 5))] \<and>
   result_size
     (crop sample_env sample_store sample_image (box_of (PInt 50, PInt 0, PInt 0, PInt 100))) =
     Some [PNum (PInt (- 50)), PNum (PInt 100)] \<and>
   \<not> positive_dims [PNum (PInt (- 50)), PNum (PInt 100)]"
  by (simp add: image_init_tuple result_size_def positive_dims_def sample_crop sample_ratio
      format_bbox_4 Let_def del: box_of.simps)

section \<open>load\<close>

text \<open>
  C5. \<^verbatim>\<open>load(fp, mode=(1, 2))\<close> raises \<^verbatim>\<open>TypeError\<close>, not \<^verbatim>\<open>ValueError\<close>, whatever \<open>fp\<close>
  is: line 192 formats the message of its \<^verbatim>\<open>ValueError\<close> with \<^verbatim>\<open>%\<close> first, and a tuple
  on the right of \<^verbatim>\<open>%\<close> is the list of the arguments, two of them for a format with
  one place. The empty tuple fails in the same way.
\<close>

theorem load_tuple_mode_raises:
  "load E heap src (PTuple [PNum (PInt 1), PNum (PInt 2)]) = Inl TypeError \<and>
   load E heap src (PTuple []) = Inl TypeError"
  by (simp add: load_def)

text \<open>
  C6. For a path source (a string, or a path object, which is resolved first) and
  mode \<^verbatim>\<open>'r'\<close>, \<^verbatim>\<open>load\<close> hands the file name to the SVG parser. If the parser yields
  nothing, \<^verbatim>\<open>load\<close> returns nothing and makes no handle. Otherwise it returns a handle
  whose size is the drawing's declared width and height and whose document is a
  new canvas of that size with the drawing rendered onto it.
\<close>

theorem load_path_source:
  "(src = SrcStr s \<and> filename = s \<or> src = SrcPath s \<and> filename = path_resolve E s) \<longrightarrow>
     (svg2rlg E filename = None \<longrightarrow> load E heap src (PStr ''r'') = Inr (heap, None)) \<and>
     (\<forall>d. svg2rlg E filename = Some d \<longrightarrow>
        (\<exists>heap' h'.
           load E heap src (PStr ''r'') = Inr (heap', Some h') \<and>
           im_size h' = [PNum (drawing_width d), PNum (drawing_height d)] \<and>
           document heap' h' =
             Some (render_draw E d
                     (blank_svg E [PNum (drawing_width d), PNum (drawing_height d)]))))"
  by (auto simp: load_def image_init_tuple document_def lookup_def nth_append)

theorem load_path_source_witness:
  "svg2rlg sample_env ''/tmp/b.svg'' = None \<and>
   load sample_env sample_store (SrcStr ''/tmp/b.svg'') (PStr ''r'') = Inr (sample_store, None) \<and>
   svg2rlg sample_env (path_resolve sample_env ''/tmp/a.svg'') = Some sample_drawing \<and>
   map_option im_size
     (loaded_handle (load sample_env sample_store (SrcPath ''/tmp/a.svg'') (PStr ''r''))) =
     Some [PNum (PFloat (Finite 10)), PNum (PFloat (Finite 20))]"
proof -
  have n: "svg2rlg sample_env ''/tmp/b.svg'' = None"
    by (simp add: sample_env_def)
  have d: "svg2rlg sample_env (path_resolve sample_env ''/tmp/a.svg'') = Some sample_drawing"
    by (simp add: sample_env_def)
  have w: "drawing_width sample_drawing = PFloat (Finite 10)"
    "drawing_height sample_drawing = PFloat (Finite 20)"
    by (simp_all add: sample_drawing_def)
  show ?thesis
    using n d w
      load_path_source [of "SrcStr ''/tmp/b.svg''" "''/tmp/b.svg''" "''/tmp/b.svg''"
        sample_env sample_store]
      load_path_source [of "SrcPath ''/tmp/a.svg''" "''/tmp/a.svg''"
        "path_resolve sample_env ''/tmp/a.svg''" sample_env sample_store]
    by (auto simp: loaded_handle_def)
qed

end
